theory Spec2Isabelle
  imports Complex_Main
begin

section \<open>The Ashlock fingerprint of axelrod/fingerprint.py\<close>

text \<open>
  A shallow embedding of the class \<open>AshlockFingerprint\<close>. The steps and the coordinates
  of the points are floats, and the code compares and truncates the rounded results of
  float operations; they are modelled as binary64 values with results rounded to nearest,
  ties to even. What the module imports from elsewhere is written out from its documented
  behaviour (numpy) or taken as a parameter (the tournament engine, the score helper,
  \<open>np.mean\<close>); each such place says so.
\<close>

subsection \<open>Floats\<close>

text \<open>
  A float is a finite real number that binary64 represents, an infinity or a nan. The two
  zeros are not told apart: no operation of the module depends on the sign of a zero
  (\<open>1 / step\<close> raises for both).
\<close>

datatype double = is_Fin: Fin (fin: real) | PInf | NInf | NaN

text \<open>Rounding a real number to the nearest integer, a tie to the even one.\<close>

definition rhe :: "real \<Rightarrow> int" where
  "rhe v =
     (let f = \<lfloor>v\<rfloor>; d = v - of_int f
      in if d < 1 / 2 then f else if 1 / 2 < d then f + 1 else if even f then f else f + 1)"

text \<open>
  The exponent of a real number in binary64 (that of the subnormal numbers below
  \<open>2 ^ (- 1022)\<close>), the unit in the last of its 53 bits, and the nearest float, which is an
  infinity from \<open>2 ^ 1024\<close> on.
\<close>

definition expo :: "real \<Rightarrow> int" where
  "expo v = max \<lfloor>log 2 \<bar>v\<bar>\<rfloor> (- 1022)"

definition ulp :: "real \<Rightarrow> real" where
  "ulp v = 2 powr (of_int (expo v) - 52)"

definition rnd :: "real \<Rightarrow> double" where
  "rnd v =
     (let r = of_int (rhe (v / ulp v)) * ulp v
      in if 2 ^ 1024 \<le> r then PInf else if r \<le> - (2 ^ 1024) then NInf else Fin r)"

fun fneg :: "double \<Rightarrow> double" where
  "fneg (Fin a) = Fin (- a)"
| "fneg PInf = NInf"
| "fneg NInf = PInf"
| "fneg NaN = NaN"

text \<open>Adding a zero is exact; every other finite sum is rounded.\<close>

fun fadd :: "double \<Rightarrow> double \<Rightarrow> double" where
  "fadd (Fin a) (Fin b) = (if b = 0 then Fin a else if a = 0 then Fin b else rnd (a + b))"
| "fadd NaN d = NaN"
| "fadd d NaN = NaN"
| "fadd PInf NInf = NaN"
| "fadd NInf PInf = NaN"
| "fadd PInf d = PInf"
| "fadd d PInf = PInf"
| "fadd NInf d = NInf"
| "fadd d NInf = NInf"

definition fsub :: "double \<Rightarrow> double \<Rightarrow> double" where
  "fsub a b = fadd a (fneg b)"

fun fmul :: "double \<Rightarrow> double \<Rightarrow> double" where
  "fmul (Fin a) (Fin b) = rnd (a * b)"
| "fmul NaN d = NaN"
| "fmul d NaN = NaN"
| "fmul (Fin a) d = (if a = 0 then NaN else if 0 < a then d else fneg d)"
| "fmul d (Fin b) = (if b = 0 then NaN else if 0 < b then d else fneg d)"
| "fmul PInf d = d"
| "fmul NInf d = fneg d"

text \<open>
  The division of IEEE 754, as numpy does it (dividing by zero gives an infinity or a
  nan).
\<close>

fun fdiv :: "double \<Rightarrow> double \<Rightarrow> double" where
  "fdiv (Fin a) (Fin b) =
     (if b = 0 then (if a = 0 then NaN else if 0 < a then PInf else NInf) else rnd (a / b))"
| "fdiv NaN d = NaN"
| "fdiv d NaN = NaN"
| "fdiv (Fin a) d = Fin 0"
| "fdiv PInf (Fin b) = (if 0 \<le> b then PInf else NInf)"
| "fdiv NInf (Fin b) = (if 0 \<le> b then NInf else PInf)"
| "fdiv d e = NaN"

fun fge :: "double \<Rightarrow> double \<Rightarrow> bool" where
  "fge (Fin a) (Fin b) = (b \<le> a)"
| "fge NaN d = False"
| "fge d NaN = False"
| "fge PInf d = True"
| "fge d NInf = True"
| "fge d e = False"

text \<open>The float of an integer (the nearest one, for a large integer).\<close>

definition of_int_d :: "int \<Rightarrow> double" where
  "of_int_d i = rnd (of_int i)"

subsection \<open>Data\<close>

text \<open>\<open>Point = namedtuple('Point', 'x y')\<close>.\<close>

datatype Point = Point (x: double) (y: double)

text \<open>The exceptions that the modelled code can raise.\<close>

datatype error =
  ZeroDivisionError | OverflowError | ValueError | KeyError | TypeError | EngineError

text \<open>
  A strategy class is a class of the library or a transformer applied to a strategy class.
  \<open>JossAnnTransformer\<close> and \<open>DualTransformer\<close> are kept as constructors: a term of this
  type records which transformers wrap the class, in which order and with which
  probabilities, and nothing about how the wrapped class plays.
\<close>

datatype 'c strategy =
    Base 'c
  | JossAnnTransformer "double \<times> double" "'c strategy"
  | DualTransformer "'c strategy"

text \<open>A player is an instance of a strategy class, \<open>cls(**kwargs)\<close>.\<close>

datatype ('c, 'k) Player = Player (player_class: "'c strategy") (init_kwargs: 'k)

text \<open>The argument \<open>strategy\<close> or \<open>probe\<close>: a class or an instance.\<close>

datatype ('c, 'k) strategy_or_player =
    Strategy "'c strategy"
  | Instance "('c, 'k) Player"

text \<open>A spatial tournament as its constructor stores it.\<close>

record ('c, 'k) SpatialTournament =
  players :: "('c, 'k) Player list"
  turns :: int
  repetitions :: int
  edges :: "(nat \<times> nat) list"

text \<open>
  The attributes of an \<open>AshlockFingerprint\<close> object. The interactions of an edge are a
  list with one entry of type \<open>'i\<close> for each repetition; a score has type \<open>'v\<close>.
\<close>

record ('c, 'k, 'i, 'v) AshlockFingerprint =
  player :: "('c, 'k) Player"
  probe_class :: "'c strategy"
  probe_kwargs :: 'k
  step :: double
  progress_bar :: bool
  points :: "Point list"
  probe_list :: "('c, 'k) Player list"
  interactions :: "(nat \<times> nat) \<rightharpoonup> 'i list"
  spatial_tournament :: "('c, 'k) SpatialTournament option"
  data :: "Point \<rightharpoonup> 'v"

subsection \<open>Library functions\<close>

text \<open>
  Python's \<open>1 / b\<close> for a float \<open>b\<close> raises ZeroDivisionError for a zero and is the
  rounded quotient otherwise (an infinity when it overflows).
\<close>

definition py_truediv :: "double \<Rightarrow> double \<Rightarrow> error + double" where
  "py_truediv a b = (if b = Fin 0 then Inl ZeroDivisionError else Inr (fdiv a b))"

text \<open>
  Python's \<open>int\<close> of a float truncates towards zero; it raises OverflowError for an
  infinity and ValueError for a nan.
\<close>

fun py_int :: "double \<Rightarrow> error + int" where
  "py_int (Fin r) = Inr (if 0 \<le> r then \<lfloor>r\<rfloor> else \<lceil>r\<rceil>)"
| "py_int PInf = Inl OverflowError"
| "py_int NInf = Inl OverflowError"
| "py_int NaN = Inl ValueError"

text \<open>
  \<open>np.linspace(start, stop, num)\<close> as numpy computes it: ValueError for a negative
  \<open>num\<close>; otherwise the floats of \<open>0, \<dots>, num - 1\<close> are multiplied by the rounded step
  \<open>(stop - start) / (num - 1)\<close> (they are divided by \<open>num - 1\<close> first when that step is
  zero, and multiplied by \<open>stop - start\<close> when \<open>num\<close> is 1), \<open>start\<close> is added, and for
  more than one sample the last one is set to \<open>stop\<close>.
\<close>

definition linspace :: "double \<Rightarrow> double \<Rightarrow> int \<Rightarrow> error + double list" where
  "linspace start stop num =
     (if num < 0 then Inl ValueError
      else
        (let dv = num - 1;
             delta = fsub stop start;
             y = map (\<lambda>i. of_int_d (int i)) [0..<nat num];
             y1 = (if 0 < dv
                   then (let st = fdiv delta (of_int_d dv)
                         in if st = Fin 0
                            then map (\<lambda>v. fmul (fdiv v (of_int_d dv)) delta) y
                            else map (\<lambda>v. fmul v st) y)
                   else map (\<lambda>v. fmul v delta) y);
             y2 = map (\<lambda>v. fadd v start) y1
         in Inr (if 1 < num then y2[nat num - 1 := stop] else y2)))"

text \<open>
  \<open>np.reshape(xs, (n, n), order='F')\<close>: ValueError unless \<open>xs\<close> has \<open>n * n\<close> elements
  (and for a negative \<open>n\<close>); the entry in row \<open>r\<close> and column \<open>c\<close> is \<open>xs[r + c * n]\<close>.
\<close>

definition reshape_F :: "'a list \<Rightarrow> int \<Rightarrow> error + 'a list list" where
  "reshape_F xs n =
     (if n < 0 \<or> int (length xs) \<noteq> n * n then Inl ValueError
      else Inr (map (\<lambda>r. map (\<lambda>c. xs ! (r + c * nat n)) [0..<nat n]) [0..<nat n]))"

text \<open>\<open>np.flipud\<close> reverses the order of the rows.\<close>

definition flipud :: "'a list list \<Rightarrow> 'a list list" where
  "flipud m = rev m"

subsection \<open>Players\<close>

text \<open>
  \<open>create_player\<close>: an instance is cloned (a new player of the same class with the same
  \<open>init_kwargs\<close>), a class is instantiated without arguments. The \<open>init_kwargs\<close> a class
  records for a call without arguments belong to the player library: parameter \<open>dflt\<close>.
\<close>

definition clone :: "('c, 'k) Player \<Rightarrow> ('c, 'k) Player" where
  "clone p = Player (player_class p) (init_kwargs p)"

fun create_player :: "('c strategy \<Rightarrow> 'k) \<Rightarrow> ('c, 'k) strategy_or_player \<Rightarrow> ('c, 'k) Player" where
  "create_player dflt (Instance p) = clone p"
| "create_player dflt (Strategy c) = Player c (dflt c)"

definition get_class_and_kwargs ::
  "('c strategy \<Rightarrow> 'k) \<Rightarrow> ('c, 'k) strategy_or_player \<Rightarrow> 'c strategy \<times> 'k" where
  "get_class_and_kwargs dflt strategy_or_player =
     (let probe_player = create_player dflt strategy_or_player
      in (player_class probe_player, init_kwargs probe_player))"

subsection \<open>Points and probes\<close>

text \<open>
  The loops of \<open>_create_points\<close>: the outer one runs over the samples \<open>xs\<close>, and each
  round calls \<open>np.linspace(0, 1, points_per_side)\<close> again for the inner one.
\<close>

fun points_loop :: "int \<Rightarrow> double list \<Rightarrow> error + Point list" where
  "points_loop n [] = Inr []"
| "points_loop n (a # xs) =
     (case linspace (Fin 0) (Fin 1) n of
        Inl e \<Rightarrow> Inl e
      | Inr ys \<Rightarrow>
          (case points_loop n xs of
             Inl e \<Rightarrow> Inl e
           | Inr rest \<Rightarrow> Inr (map (Point a) ys @ rest)))"

definition create_points :: "('c, 'k, 'i, 'v) AshlockFingerprint \<Rightarrow> error + Point list" where
  "create_points self =
     (case py_truediv (Fin 1) (step self) of
        Inl e \<Rightarrow> Inl e
      | Inr q \<Rightarrow>
          (case py_int q of
             Inl e \<Rightarrow> Inl e
           | Inr k \<Rightarrow>
               (let points_per_side = k + 1
                in case linspace (Fin 0) (Fin 1) points_per_side of
                     Inl e \<Rightarrow> Inl e
                   | Inr xs \<Rightarrow> points_loop points_per_side xs)))"

definition create_jossann ::
  "('c, 'k, 'i, 'v) AshlockFingerprint \<Rightarrow> Point \<Rightarrow> ('c, 'k) Player" where
  "create_jossann self point =
     (case point of Point a b \<Rightarrow>
        if fge (fadd a b) (Fin 1)
        then Player (DualTransformer
                       (JossAnnTransformer (fsub (Fin 1) a, fsub (Fin 1) b) (probe_class self)))
                    (probe_kwargs self)
        else Player (JossAnnTransformer (a, b) (probe_class self)) (probe_kwargs self))"

text \<open>The progress bar only wraps the iteration over the points.\<close>

definition create_probes :: "('c, 'k, 'i, 'v) AshlockFingerprint \<Rightarrow> ('c, 'k) Player list" where
  "create_probes self = map (create_jossann self) (points self)"

subsection \<open>Construction and the step setter\<close>

text \<open>
  \<open>__init__\<close> either raises, and then there is no object, or returns the object. The
  attributes that are assigned later in the constructor are empty until then.
\<close>

definition init ::
  "('c strategy \<Rightarrow> 'k) \<Rightarrow> ('c, 'k) strategy_or_player \<Rightarrow> ('c, 'k) strategy_or_player \<Rightarrow>
   double \<Rightarrow> bool \<Rightarrow> error + ('c, 'k, 'i, 'v) AshlockFingerprint" where
  "init dflt strategy probe s pb =
     (let ck = get_class_and_kwargs dflt probe;
          self0 = \<lparr> player = create_player dflt strategy,
                    probe_class = fst ck, probe_kwargs = snd ck,
                    step = s, progress_bar = pb,
                    points = [], probe_list = [],
                    interactions = Map.empty, spatial_tournament = None,
                    data = Map.empty \<rparr>
      in case create_points self0 of
           Inl e \<Rightarrow> Inl e
         | Inr pts \<Rightarrow>
             (let self1 = self0 \<lparr> points := pts \<rparr>
              in Inr (self1 \<lparr> probe_list := create_probes self1 \<rparr>)))"

text \<open>
  The setter of \<open>step\<close> assigns \<open>_step\<close> first. When \<open>_create_points\<close> then raises, the
  object keeps the new step with the old points and probes, so the setter returns the
  object in both cases.
\<close>

definition step_setter ::
  "double \<Rightarrow> ('c, 'k, 'i, 'v) AshlockFingerprint \<Rightarrow>
   (error + unit) \<times> ('c, 'k, 'i, 'v) AshlockFingerprint" where
  "step_setter new_step self =
     (let self1 = self \<lparr> step := new_step \<rparr>
      in case create_points self1 of
           Inl e \<Rightarrow> (Inl e, self1)
         | Inr pts \<Rightarrow>
             (let self2 = self1 \<lparr> points := pts \<rparr>
              in (Inr (), self2 \<lparr> probe_list := create_probes self2 \<rparr>)))"

subsection \<open>Running the tournament\<close>

text \<open>
  Modelled from the spec: \<open>axl.SpatialTournament\<close> is not under src/. The spec (section
  4.4) has the runner give it the players, the turns, the repetitions and the edges; the
  constructor of the library stores them and raises ValueError ("The graph edges do not
  include all players.") unless the nodes of the edges are exactly the indices of the
  players.
\<close>

definition spatial_tournament_init ::
  "('c, 'k) Player list \<Rightarrow> int \<Rightarrow> int \<Rightarrow> (nat \<times> nat) list \<Rightarrow>
   error + ('c, 'k) SpatialTournament" where
  "spatial_tournament_init ps t r es =
     (if set (concat (map (\<lambda>edge. [fst edge, snd edge]) es)) \<noteq> set [0..<length ps]
      then Inl ValueError
      else Inr \<lparr> players = ps, turns = t, repetitions = r, edges = es \<rparr>)"

text \<open>
  What \<open>fingerprint\<close> and \<open>_generate_data\<close> use from outside the module:
  \<open>on_windows\<close>; the name of the \<open>NamedTemporaryFile\<close>; the tournament engine, that is
  \<open>SpatialTournament.play\<close> followed by reading the interactions back (from
  \<open>interactions_dict\<close> when \<open>in_memory\<close>, from the file otherwise), which is given the
  tournament, the file name, \<open>processes\<close>, \<open>in_memory\<close> and \<open>progress_bar\<close> and
  returns the interactions of every edge or raises;
  \<open>compute_final_score_per_turn\<close>, which gives the two final scores per turn of one
  repetition, or \<open>None\<close> for a repetition without turns; and \<open>np.mean\<close>.
\<close>

record ('c, 'k, 'i, 'v) environment =
  on_windows :: bool
  tmp_name :: string
  run_tournament ::
    "('c, 'k) SpatialTournament \<Rightarrow> string option \<Rightarrow> nat option \<Rightarrow> bool \<Rightarrow> bool \<Rightarrow>
     error + ((nat \<times> nat) \<rightharpoonup> 'i list)"
  compute_final_score_per_turn :: "'i \<Rightarrow> ('v \<times> 'v) option"
  np_mean :: "'v list \<Rightarrow> 'v"

text \<open>
  The inner comprehension of \<open>_generate_data\<close>, over the repetitions of one edge:
  \<open>compute_final_score_per_turn(scores)[0]\<close> raises TypeError where the helper returns
  \<open>None\<close>.
\<close>

fun repetition_scores :: "('i \<Rightarrow> ('v \<times> 'v) option) \<Rightarrow> 'i list \<Rightarrow> error + 'v list" where
  "repetition_scores cf [] = Inr []"
| "repetition_scores cf (scores # rest) =
     (case cf scores of
        None \<Rightarrow> Inl TypeError
      | Some pair \<Rightarrow>
          (case repetition_scores cf rest of
             Inl e \<Rightarrow> Inl e
           | Inr vs \<Rightarrow> Inr (fst pair # vs)))"

text \<open>
  The outer comprehension \<open>edge_scores\<close>: \<open>self.interactions[edge]\<close> raises KeyError for
  an edge that is not a key.
\<close>

fun edge_scores ::
  "('v list \<Rightarrow> 'v) \<Rightarrow> ('i \<Rightarrow> ('v \<times> 'v) option) \<Rightarrow> ((nat \<times> nat) \<rightharpoonup> 'i list) \<Rightarrow>
   (nat \<times> nat) list \<Rightarrow> error + 'v list" where
  "edge_scores mean cf ints [] = Inr []"
| "edge_scores mean cf ints (edge # es) =
     (case ints edge of
        None \<Rightarrow> Inl KeyError
      | Some reps \<Rightarrow>
          (case repetition_scores cf reps of
             Inl e \<Rightarrow> Inl e
           | Inr vs \<Rightarrow>
               (case edge_scores mean cf ints es of
                  Inl e \<Rightarrow> Inl e
                | Inr rest \<Rightarrow> Inr (mean vs # rest))))"

text \<open>
  \<open>dict(zip(self.points, edge_scores))\<close>: the pairs are entered from left to right, a later
  pair replaces an earlier one with the same key, and \<open>zip\<close> stops with the shorter list.
\<close>

definition generate_data ::
  "('c, 'k, 'i, 'v) environment \<Rightarrow> ('c, 'k, 'i, 'v) AshlockFingerprint \<Rightarrow> (nat \<times> nat) list \<Rightarrow>
   error + (Point \<rightharpoonup> 'v)" where
  "generate_data env self es =
     (case edge_scores (np_mean env) (compute_final_score_per_turn env) (interactions self) es of
        Inl e \<Rightarrow> Inl e
      | Inr scores \<Rightarrow> Inr (Map.empty (points self [\<mapsto>] scores)))"

text \<open>The truth value of the argument \<open>new_step\<close>: \<open>None\<close> and zero are false.\<close>

fun truthy :: "double option \<Rightarrow> bool" where
  "truthy None = False"
| "truthy (Some d) = (d \<noteq> Fin 0)"

text \<open>Lines 154 to 156 of \<open>fingerprint\<close>: the players and the edges.\<close>

definition tourn_players ::
  "('c, 'k, 'i, 'v) AshlockFingerprint \<Rightarrow> ('c, 'k) Player list" where
  "tourn_players self = [player self] @ probe_list self"

definition probe_edges :: "('c, 'k, 'i, 'v) AshlockFingerprint \<Rightarrow> (nat \<times> nat) list" where
  "probe_edges self = map (\<lambda>probe_index. (0, probe_index)) [1..<length (probe_list self) + 1]"

text \<open>
  \<open>fingerprint\<close> returns what it returns or raises, together with the object as it is
  then.
\<close>

definition fingerprint ::
  "('c, 'k, 'i, 'v) environment \<Rightarrow> int \<Rightarrow> int \<Rightarrow> double option \<Rightarrow> nat option \<Rightarrow>
   string option \<Rightarrow> bool \<Rightarrow> ('c, 'k, 'i, 'v) AshlockFingerprint \<Rightarrow>
   (error + (Point \<rightharpoonup> 'v)) \<times> ('c, 'k, 'i, 'v) AshlockFingerprint" where
  "fingerprint env t r new_step processes filename in_memory self =
     (let in_memory1 = (if on_windows env \<and> filename = None then True else in_memory);
          filename1 = (if on_windows env \<and> filename = None then filename
                       else if filename = None then Some (tmp_name env) else filename);
          stepped = (if truthy new_step then step_setter (the new_step) self
                     else (Inr (), self))
      in case stepped of
           (Inl e, self1) \<Rightarrow> (Inl e, self1)
         | (Inr u, self1) \<Rightarrow>
             (let es = probe_edges self1
              in case spatial_tournament_init (tourn_players self1) t r es of
                   Inl e \<Rightarrow> (Inl e, self1)
                 | Inr tournament \<Rightarrow>
                     (let self2 = self1 \<lparr> spatial_tournament := Some tournament \<rparr>
                      in case run_tournament env tournament filename1 processes in_memory1
                                (progress_bar self2) of
                           Inl e \<Rightarrow> (Inl e, self2)
                         | Inr ints \<Rightarrow>
                             (let self3 = self2 \<lparr> interactions := ints \<rparr>
                              in case generate_data env self3 es of
                                   Inl e \<Rightarrow> (Inl e, self3)
                                 | Inr d \<Rightarrow> (Inr d, self3 \<lparr> data := d \<rparr>)))))"

subsection \<open>Reshaping\<close>

text \<open>
  The comprehension \<open>ordered_data\<close> of \<open>_reshape_data\<close>: \<open>self.data[point]\<close> raises
  KeyError for a point that is not a key.
\<close>

fun ordered_data :: "(Point \<rightharpoonup> 'v) \<Rightarrow> Point list \<Rightarrow> error + 'v list" where
  "ordered_data d [] = Inr []"
| "ordered_data d (point # ps) =
     (case d point of
        None \<Rightarrow> Inl KeyError
      | Some v \<Rightarrow>
          (case ordered_data d ps of
             Inl e \<Rightarrow> Inl e
           | Inr rest \<Rightarrow> Inr (v # rest)))"

definition reshape_data :: "('c, 'k, 'i, 'v) AshlockFingerprint \<Rightarrow> error + 'v list list" where
  "reshape_data self =
     (case py_truediv (Fin 1) (step self) of
        Inl e \<Rightarrow> Inl e
      | Inr q \<Rightarrow>
          (case py_int q of
             Inl e \<Rightarrow> Inl e
           | Inr k \<Rightarrow>
               (let side_len = k + 1
                in case ordered_data (data self) (points self) of
                     Inl e \<Rightarrow> Inl e
                   | Inr od \<Rightarrow>
                       (case reshape_F od side_len of
                          Inl e \<Rightarrow> Inl e
                        | Inr shaped_data \<Rightarrow> Inr (flipud shaped_data)))))"

subsection \<open>Example objects\<close>

text \<open>
  A fingerprint of \<open>Cooperator\<close> with probe \<open>TitForTat\<close> at step 1, as the constructor
  leaves it. In the examples one repetition is the pair of its final scores per turn, or
  \<open>None\<close> for a repetition without turns.
\<close>

definition example_probes :: "(string, unit) Player list" where
  "example_probes =
     [Player (JossAnnTransformer (Fin 0, Fin 0) (Base ''TitForTat'')) (),
      Player (DualTransformer (JossAnnTransformer (Fin 1, Fin 0) (Base ''TitForTat''))) (),
      Player (DualTransformer (JossAnnTransformer (Fin 0, Fin 1) (Base ''TitForTat''))) (),
      Player (DualTransformer (JossAnnTransformer (Fin 0, Fin 0) (Base ''TitForTat''))) ()]"

definition example ::
  "(string, unit, (double \<times> double) option, double) AshlockFingerprint" where
  "example =
     \<lparr> player = Player (Base ''Cooperator'') (),
       probe_class = Base ''TitForTat'', probe_kwargs = (),
       step = Fin 1, progress_bar = False,
       points = [Point (Fin 0) (Fin 0), Point (Fin 0) (Fin 1),
                 Point (Fin 1) (Fin 0), Point (Fin 1) (Fin 1)],
       probe_list = example_probes,
       interactions = Map.empty, spatial_tournament = None, data = Map.empty \<rparr>"

text \<open>
  The same fingerprint at step 1/2, with the score \<open>k\<close> for the point at position \<open>k\<close> of
  the grid.
\<close>

definition half_points :: "Point list" where
  "half_points =
     [Point (Fin 0) (Fin 0), Point (Fin 0) (Fin (1 / 2)), Point (Fin 0) (Fin 1),
      Point (Fin (1 / 2)) (Fin 0), Point (Fin (1 / 2)) (Fin (1 / 2)), Point (Fin (1 / 2)) (Fin 1),
      Point (Fin 1) (Fin 0), Point (Fin 1) (Fin (1 / 2)), Point (Fin 1) (Fin 1)]"

definition example_half ::
  "(string, unit, (double \<times> double) option, double) AshlockFingerprint" where
  "example_half =
     example \<lparr> step := Fin (1 / 2), points := half_points,
               probe_list := map (create_jossann example) half_points,
               data := map_of (zip half_points
                         (map Fin [0, 1, 2, 3, 4, 5, 6, 7, 8])) \<rparr>"

text \<open>
  Interactions with three, one, two and no repetitions for the four edges; a mean that
  adds the scores from left to right and divides by their number (nan for no score); an
  environment whose engine returns these interactions and whose score helper returns the
  repetition; and the fingerprint that holds the interactions after a tournament of ten
  repetitions.
\<close>

definition example_interactions :: "(nat \<times> nat) \<rightharpoonup> (double \<times> double) option list" where
  "example_interactions =
     map_of [((0, 1), [Some (Fin 1, Fin 3), Some (Fin 4, Fin 0), Some (Fin 7, Fin 2)]),
             ((0, 2), [Some (Fin 2, Fin 2)]),
             ((0, 3), [Some (Fin 5, Fin 1), Some (Fin 1, Fin 3)]),
             ((0, 4), [])]"

definition sequential_mean :: "double list \<Rightarrow> double" where
  "sequential_mean vs =
     (if vs = [] then NaN else fdiv (foldl fadd (Fin 0) vs) (of_int_d (int (length vs))))"

definition example_env ::
  "(string, unit, (double \<times> double) option, double) environment" where
  "example_env =
     \<lparr> on_windows = False, tmp_name = ''tmp'',
       run_tournament = (\<lambda>tournament filename processes in_memory pb. Inr example_interactions),
       compute_final_score_per_turn = (\<lambda>scores. scores),
       np_mean = sequential_mean \<rparr>"

definition example_tournament :: "(string, unit) SpatialTournament" where
  "example_tournament =
     \<lparr> players = Player (Base ''Cooperator'') () # example_probes,
       turns = 50, repetitions = 10, edges = [(0, 1), (0, 2), (0, 3), (0, 4)] \<rparr>"

definition example_played ::
  "(string, unit, (double \<times> double) option, double) AshlockFingerprint" where
  "example_played =
     example \<lparr> interactions := example_interactions,
               spatial_tournament := Some example_tournament \<rparr>"

section \<open>Properties\<close>

subsection \<open>Rounding to the nearest float\<close>

lemma rhe_of_int: "rhe (of_int k) = k"
  by (simp add: rhe_def)

lemma rhe_err: "\<bar>of_int (rhe v) - v\<bar> \<le> 1 / 2"
proof -
  have "of_int \<lfloor>v\<rfloor> \<le> v" "v < of_int \<lfloor>v\<rfloor> + 1" by linarith+
  then show ?thesis by (auto simp: rhe_def Let_def)
qed

lemma rhe_le_int:
  assumes "v \<le> of_int n"
  shows "rhe v \<le> n"
proof -
  have "of_int (rhe v) \<le> v + 1 / 2" using rhe_err [of v] by linarith
  then have "of_int (rhe v) < (of_int n :: real) + 1" using assms by linarith
  then show ?thesis by linarith
qed


lemma ulp_pos: "0 < ulp v"
  by (simp add: ulp_def)

lemma expo_ge: "- 1022 \<le> expo v"
  by (simp add: expo_def)

lemma floor_log_le_expo: "\<lfloor>log 2 \<bar>v\<bar>\<rfloor> \<le> expo v"
  by (simp add: expo_def)

lemma expo_upper:
  assumes "v \<noteq> 0"
  shows "\<bar>v\<bar> < 2 powr (of_int (expo v) + 1)"
proof -
  have "log 2 \<bar>v\<bar> < of_int \<lfloor>log 2 \<bar>v\<bar>\<rfloor> + 1" by linarith
  also have "\<dots> \<le> of_int (expo v) + 1" using floor_log_le_expo [of v] by simp
  finally have "2 powr (log 2 \<bar>v\<bar>) < 2 powr (of_int (expo v) + 1)"
    by (simp add: powr_less_mono)
  then show ?thesis using assms by simp
qed

lemma expo_lower:
  assumes "2 powr (- 1022) \<le> \<bar>v\<bar>"
  shows "2 powr (of_int (expo v)) \<le> \<bar>v\<bar>"
proof -
  have pos: "0 < \<bar>v\<bar>" using assms powr_gt_zero [of 2 "- 1022"] by linarith
  have "log 2 (2 powr (- 1022)) \<le> log 2 \<bar>v\<bar>"
    using assms pos by (simp del: log_powr_cancel)
  then have "- 1022 \<le> log 2 \<bar>v\<bar>" by simp
  then have "- 1022 \<le> \<lfloor>log 2 \<bar>v\<bar>\<rfloor>" by linarith
  then have e: "expo v = \<lfloor>log 2 \<bar>v\<bar>\<rfloor>" by (simp add: expo_def)
  have "of_int \<lfloor>log 2 \<bar>v\<bar>\<rfloor> \<le> log 2 \<bar>v\<bar>" by linarith
  then have "2 powr (of_int \<lfloor>log 2 \<bar>v\<bar>\<rfloor>) \<le> 2 powr (log 2 \<bar>v\<bar>)"
    by (simp add: powr_mono)
  then show ?thesis using pos e by simp
qed


lemma expo_less:
  assumes "v \<noteq> 0" and "\<bar>v\<bar> < 2 powr (of_int k)" and "- 1022 < k"
  shows "expo v < k"
proof -
  have "log 2 \<bar>v\<bar> < log 2 (2 powr (of_int k))"
    using assms(1,2) by (simp del: log_powr_cancel)
  then have "log 2 \<bar>v\<bar> < of_int k" by simp
  then have "\<lfloor>log 2 \<bar>v\<bar>\<rfloor> < k" by linarith
  then show ?thesis using assms(3) by (simp add: expo_def)
qed

lemma expo_ge_pow:
  assumes "2 powr (of_int k) \<le> \<bar>v\<bar>"
  shows "k \<le> expo v"
proof -
  have pos: "0 < \<bar>v\<bar>" using assms powr_gt_zero [of 2 "of_int k"] by linarith
  have "log 2 (2 powr (of_int k)) \<le> log 2 \<bar>v\<bar>"
    using assms pos by (simp del: log_powr_cancel)
  then have "of_int k \<le> log 2 \<bar>v\<bar>" by simp
  then have "k \<le> \<lfloor>log 2 \<bar>v\<bar>\<rfloor>" by linarith
  then show ?thesis using floor_log_le_expo [of v] by linarith
qed

lemma expo_eq:
  assumes "2 powr (of_int k) \<le> \<bar>v\<bar>" and "\<bar>v\<bar> < 2 powr (of_int k + 1)" and "- 1022 \<le> k"
  shows "expo v = k"
proof -
  have pos: "v \<noteq> 0" using assms(1) powr_gt_zero [of 2 "of_int k"] by auto
  have "\<bar>v\<bar> < 2 powr (of_int (k + 1))" using assms(2) by simp
  then have "expo v < k + 1" using pos assms(3) by (intro expo_less) simp_all
  then show ?thesis using expo_ge_pow [OF assms(1)] by linarith
qed

lemma pow2_int: "0 \<le> j \<Longrightarrow> (2::real) powr (of_int j) = of_int (2 ^ nat j)"
  by (simp add: powr_real_of_int)


lemma rnd_FinI:
  assumes "\<bar>of_int (rhe (v / ulp v)) * ulp v\<bar> < 2 ^ 1024"
  shows "rnd v = Fin (of_int (rhe (v / ulp v)) * ulp v)"
proof -
  have "\<not> 2 ^ 1024 \<le> of_int (rhe (v / ulp v)) * ulp v"
       "\<not> of_int (rhe (v / ulp v)) * ulp v \<le> - (2 ^ 1024)"
    using assms by linarith+
  then show ?thesis by (simp add: rnd_def Let_def)
qed

lemma rnd_cases:
  "rnd v = PInf \<and> 2 ^ 1024 \<le> of_int (rhe (v / ulp v)) * ulp v
   \<or> rnd v = NInf \<and> of_int (rhe (v / ulp v)) * ulp v \<le> - (2 ^ 1024)
   \<or> rnd v = Fin (of_int (rhe (v / ulp v)) * ulp v)"
  by (simp add: rnd_def Let_def)

lemma rnd_not_NaN: "rnd v \<noteq> NaN"
  using rnd_cases [of v] by auto

lemma rnd_exact:
  assumes "v / ulp v = of_int j" and "\<bar>v\<bar> < 2 ^ 1024"
  shows "rnd v = Fin v"
proof -
  have "real_of_int (rhe (v / ulp v)) = v / ulp v"
    by (simp add: assms(1) rhe_of_int)
  then have "of_int (rhe (v / ulp v)) * ulp v = v"
    using ulp_pos [of v] by simp
  then show ?thesis using rnd_FinI [of v] assms(2) by simp
qed

lemma rnd_zero: "rnd 0 = Fin 0"
  using rnd_exact [of 0 0] by simp

lemma rnd_int_exact:
  assumes "\<bar>i\<bar> < 2 ^ 53"
  shows "rnd (of_int i) = Fin (of_int i)"
proof (cases "i = 0")
  case True
  then show ?thesis by (simp add: rnd_zero)
next
  case False
  define v :: real where "v = of_int i"
  have v0: "v \<noteq> 0" using False by (simp add: v_def)
  have a1: "1 \<le> \<bar>v\<bar>" using False by (simp add: v_def)
  have a2: "\<bar>v\<bar> < 2 ^ 53"
  proof -
    have "\<bar>v\<bar> = of_int \<bar>i\<bar>" by (simp add: v_def)
    also have "\<dots> < of_int (2 ^ 53)" using assms by (simp only: of_int_less_iff)
    finally show ?thesis by simp
  qed
  have "(2::real) powr (of_int 0) \<le> \<bar>v\<bar>" using a1 by simp
  then have e0: "0 \<le> expo v" by (rule expo_ge_pow)
  have "\<bar>v\<bar> < 2 powr (of_int 53)" using a2 by (simp add: powr_realpow)
  then have e53: "expo v < 53" using v0 by (intro expo_less) simp_all
  define j where "j = 52 - expo v"
  have j0: "0 \<le> j" using e53 by (simp add: j_def)
  have "v / ulp v = v * 2 powr (of_int j)"
    by (simp add: ulp_def j_def powr_diff field_simps)
  also have "\<dots> = of_int (i * 2 ^ nat j)"
    using j0 by (simp add: v_def pow2_int)
  finally have "v / ulp v = of_int (i * 2 ^ nat j)" .
  moreover have "\<bar>v\<bar> < 2 ^ 1024"
  proof -
    have "(2::real) ^ 53 \<le> 2 ^ 1024" by (intro power_increasing) simp_all
    then show ?thesis using a2 by linarith
  qed
  ultimately show ?thesis unfolding v_def by (rule rnd_exact)
qed

lemma pow2_lt_max:
  assumes "k \<le> 1023"
  shows "2 powr (of_int k) < (2::real) ^ 1024"
proof -
  have "(2::real) powr (of_int k) \<le> 2 powr (real (1023::nat))"
    using assms by (intro powr_mono) simp_all
  also have "\<dots> = 2 ^ (1023::nat)" by (rule powr_realpow) simp
  also have "\<dots> < (2::real) ^ 1024" by (intro power_strict_increasing) simp_all
  finally show ?thesis .
qed

lemma rnd_pow2:
  assumes "- 1022 \<le> k" and "k \<le> 1023"
  shows "rnd (2 powr (of_int k)) = Fin (2 powr (of_int k))"
proof -
  define v :: real where "v = 2 powr (of_int k)"
  have vp: "0 < v" by (simp add: v_def)
  have "2 powr (of_int k) \<le> \<bar>v\<bar>" "\<bar>v\<bar> < 2 powr (of_int k + 1)"
    using vp by (simp_all add: v_def)
  then have e: "expo v = k" using assms(1) by (rule expo_eq)
  have u: "ulp v = 2 powr (of_int k - 52)" by (simp add: ulp_def e)
  have "v / ulp v = v / 2 powr (of_int k - 52)"
    by (simp only: u)
  also have "\<dots> = 2 powr (of_int k) / 2 powr (of_int k - 52)"
    by (simp only: v_def)
  also have "\<dots> = 2 powr (of_int k - (of_int k - 52))"
    by (simp only: powr_diff)
  also have "\<dots> = 2 powr 52" by simp
  also have "\<dots> = of_int (2 ^ 52)" by (simp add: powr_realpow)
  finally have "v / ulp v = of_int (2 ^ 52)" .
  moreover have "\<bar>v\<bar> < 2 ^ 1024"
    using pow2_lt_max [OF assms(2)] vp by (simp add: v_def del: power_numeral)
  ultimately show ?thesis unfolding v_def by (rule rnd_exact)
qed

lemma rnd_half: "rnd (1 / 2) = Fin (1 / 2)"
  using rnd_pow2 [of "- 1"] by (simp add: powr_minus field_simps)

lemma rnd_neg_half: "rnd (- (1 / 2)) = Fin (- (1 / 2))"
proof -
  define v :: real where "v = - (1 / 2)"
  have "2 powr (of_int (- 1)) \<le> \<bar>v\<bar>" "\<bar>v\<bar> < 2 powr (of_int (- 1) + 1)"
    by (simp_all add: v_def powr_minus field_simps)
  then have e: "expo v = - 1" by (rule expo_eq) simp
  have "ulp v = 2 powr (- 53)" by (simp add: ulp_def e)
  then have "v / ulp v = - (1 / 2) * 2 powr 53"
    by (simp add: v_def powr_minus field_simps)
  also have "\<dots> = of_int (- (2 ^ 52))" by (simp add: powr_realpow)
  finally have "v / ulp v = of_int (- (2 ^ 52))" .
  moreover have "\<bar>v\<bar> < 2 ^ 1024"
  proof -
    have "(1::real) \<le> 2 ^ 1024" by (rule one_le_power) simp
    then show ?thesis by (simp add: v_def)
  qed
  ultimately show ?thesis unfolding v_def by (rule rnd_exact)
qed


lemma rnd_nonpos:
  assumes "v \<le> 0"
  shows "rnd v = NInf \<or> (\<exists>r. rnd v = Fin r \<and> r \<le> 0)"
proof -
  have "v / ulp v \<le> of_int 0" using assms ulp_pos [of v] by (simp add: divide_le_0_iff)
  then have "rhe (v / ulp v) \<le> 0" by (rule rhe_le_int)
  then have "of_int (rhe (v / ulp v)) * ulp v \<le> 0"
    using ulp_pos [of v] by (simp add: mult_le_0_iff)
  then show ?thesis using rnd_cases [of v] by auto
qed

lemma scaled_ge:
  assumes "2 powr (of_int k) \<le> \<bar>v\<bar>" and "- 1022 \<le> k"
  shows "2 ^ 52 \<le> \<bar>v\<bar> / ulp v" and "2 powr (of_int k) \<le> 2 ^ 52 * ulp v"
proof -
  have "(2::real) powr (- 1022) \<le> 2 powr (of_int k)"
    using assms(2) by (intro powr_mono) simp_all
  then have "2 powr (- 1022) \<le> \<bar>v\<bar>" using assms(1) by linarith
  then have lo: "2 powr (of_int (expo v)) \<le> \<bar>v\<bar>" by (rule expo_lower)
  have u: "2 ^ 52 * ulp v = 2 powr (of_int (expo v))"
    by (simp add: ulp_def powr_diff powr_realpow)
  show "2 ^ 52 \<le> \<bar>v\<bar> / ulp v"
    using lo u ulp_pos [of v] by (simp add: le_divide_eq)
  have "k \<le> expo v" using assms(1) by (rule expo_ge_pow)
  then have "(2::real) powr (of_int k) \<le> 2 powr (of_int (expo v))"
    by (intro powr_mono) simp_all
  then show "2 powr (of_int k) \<le> 2 ^ 52 * ulp v" using u by simp
qed


lemma rnd_le_neg_pow:
  assumes "v \<le> - (2 powr (of_int k))" and "- 1022 \<le> k"
  shows "rnd v = NInf \<or> (\<exists>r. rnd v = Fin r \<and> r \<le> - (2 powr (of_int k)))"
proof -
  have vn: "v < 0" using assms(1) powr_gt_zero [of 2 "of_int k"] by linarith
  then have a: "2 powr (of_int k) \<le> \<bar>v\<bar>" using assms(1) by simp
  have "2 ^ 52 \<le> - v / ulp v" using scaled_ge(1) [OF a assms(2)] vn by simp
  then have "v / ulp v \<le> of_int (- (2 ^ 52))" by simp
  then have "rhe (v / ulp v) \<le> - (2 ^ 52)" by (rule rhe_le_int)
  then have "(of_int (rhe (v / ulp v)) :: real) \<le> of_int (- (2 ^ 52))"
    by (simp only: of_int_le_iff)
  then have "of_int (rhe (v / ulp v)) \<le> - ((2::real) ^ 52)" by simp
  then have "of_int (rhe (v / ulp v)) * ulp v \<le> - (2 ^ 52) * ulp v"
    using ulp_pos [of v] by (intro mult_right_mono) simp_all
  then have b: "of_int (rhe (v / ulp v)) * ulp v \<le> - (2 powr (of_int k))"
    using scaled_ge(2) [OF a assms(2)] by linarith
  moreover have "(0::real) < 2 ^ 1024" by (rule zero_less_power) simp
  ultimately have "\<not> 2 ^ 1024 \<le> of_int (rhe (v / ulp v)) * ulp v"
    using powr_gt_zero [of 2 "of_int k"] by linarith
  then show ?thesis using rnd_cases [of v] b by auto
qed




subsection \<open>The samples of linspace\<close>



lemma linspace_negative: "num < 0 \<Longrightarrow> linspace start stop num = Inl ValueError"
  by (simp add: linspace_def)



lemma linspace_zero: "linspace (Fin 0) (Fin 1) 0 = Inr []"
  by (simp add: linspace_def Let_def)

lemma linspace_one: "linspace (Fin 0) (Fin 1) 1 = Inr [Fin 0]"
  by (simp add: linspace_def Let_def fsub_def of_int_d_def rnd_zero)




subsection \<open>The probe of a point\<close>

lemma rnd_numeral:
  "numeral w < (2::int) ^ 53 \<Longrightarrow> rnd (numeral w) = Fin (numeral w)"
  using rnd_int_exact [of "numeral w"] by simp

lemma rnd_one: "rnd 1 = Fin 1"
  using rnd_int_exact [of 1] by simp

lemma rnd_neg_numeral:
  "numeral w < (2::int) ^ 53 \<Longrightarrow> rnd (- numeral w) = Fin (- numeral w)"
  using rnd_int_exact [of "- numeral w"] by simp

lemma rnd_neg_one: "rnd (- 1) = Fin (- 1)"
  using rnd_int_exact [of "- 1"] by simp

lemmas rnd_values = rnd_zero rnd_one rnd_neg_one rnd_half rnd_neg_half rnd_numeral rnd_neg_numeral


lemma float_sum_seven_three:
  "fadd (Fin (3152519739159347 / 2 ^ 52)) (Fin (5404319552844595 / 2 ^ 54)) = Fin 1"
proof -
  define v :: real where "v = 18014398509481983 / 2 ^ 54"
  have s: "3152519739159347 / 2 ^ 52 + 5404319552844595 / 2 ^ 54 = v"
    by (simp add: v_def)
  have "2 powr (of_int (- 1)) \<le> \<bar>v\<bar>" "\<bar>v\<bar> < 2 powr (of_int (- 1) + 1)"
    by (simp_all add: v_def powr_minus_divide)
  then have e: "expo v = - 1" by (rule expo_eq) simp
  have u: "ulp v = 1 / 2 ^ 53" by (simp add: ulp_def e powr_minus_divide)
  have "v / ulp v = v * 2 ^ 53" by (simp add: u)
  also have "\<dots> = 18014398509481983 / 2" by (simp add: v_def)
  finally have q: "v / ulp v = 18014398509481983 / 2" .
  have f: "\<lfloor>18014398509481983 / 2 :: real\<rfloor> = 9007199254740991" by simp
  have "rhe (v / ulp v) = 9007199254740992"
    unfolding q by (simp add: rhe_def Let_def f)
  then have r: "rnd v = Fin 1" by (simp add: rnd_def Let_def u)
  have nz: "(5404319552844595 / 2 ^ 54 :: real) \<noteq> 0" "(3152519739159347 / 2 ^ 52 :: real) \<noteq> 0"
    by simp_all
  show ?thesis by (simp only: fadd.simps nz if_False s r)
qed

lemma create_jossann_Point:
  "create_jossann self (Point a b) =
     (if fge (fadd a b) (Fin 1)
      then Player (DualTransformer
                     (JossAnnTransformer (fsub (Fin 1) a, fsub (Fin 1) b) (probe_class self)))
                  (probe_kwargs self)
      else Player (JossAnnTransformer (a, b) (probe_class self)) (probe_kwargs self))"
  by (simp add: create_jossann_def)

text \<open>
  C2. The probe of a point \<open>(a, b)\<close> is built in the dual branch exactly when the float
  sum \<open>a + b\<close> is at least 1, the boundary included, and there the Joss-Ann parameters
  are the float differences \<open>(1 - a, 1 - b)\<close>; otherwise the Joss-Ann transformer is
  applied to the probe class with the parameters \<open>(a, b)\<close> and there is no dual. The class
  of the probe is a dual class if and only if the sum is at least 1. The points
  \<open>(0.5, 0.5)\<close> and \<open>(1, 1)\<close> are in the dual branch, the point \<open>(0, 0)\<close> is not.
\<close>

theorem create_jossann_branches:
  "(fge (fadd a b) (Fin 1) \<longrightarrow>
      create_jossann self (Point a b) =
        Player (DualTransformer
                  (JossAnnTransformer (fsub (Fin 1) a, fsub (Fin 1) b) (probe_class self)))
               (probe_kwargs self))
   \<and> (\<not> fge (fadd a b) (Fin 1) \<longrightarrow>
      create_jossann self (Point a b) =
        Player (JossAnnTransformer (a, b) (probe_class self)) (probe_kwargs self))
   \<and> ((\<exists>q. player_class (create_jossann self (Point a b)) = DualTransformer q)
        \<longleftrightarrow> fge (fadd a b) (Fin 1))
   \<and> create_jossann self (Point (Fin (1 / 2)) (Fin (1 / 2))) =
        Player (DualTransformer (JossAnnTransformer (Fin (1 / 2), Fin (1 / 2)) (probe_class self)))
               (probe_kwargs self)
   \<and> create_jossann self (Point (Fin 1) (Fin 1)) =
        Player (DualTransformer (JossAnnTransformer (Fin 0, Fin 0) (probe_class self)))
               (probe_kwargs self)
   \<and> create_jossann self (Point (Fin 0) (Fin 0)) =
        Player (JossAnnTransformer (Fin 0, Fin 0) (probe_class self)) (probe_kwargs self)"
  by (simp add: create_jossann_Point fsub_def rnd_values)

theorem create_jossann_branches_witness:
  "create_jossann example (Point (Fin 1) (Fin 0)) =
     Player (DualTransformer (JossAnnTransformer (Fin 0, Fin 1) (Base ''TitForTat''))) ()
   \<and> create_jossann example (Point (Fin (3152519739159347 / 2 ^ 52))
                                     (Fin (5404319552844595 / 2 ^ 54))) =
     Player (DualTransformer
               (JossAnnTransformer (fsub (Fin 1) (Fin (3152519739159347 / 2 ^ 52)),
                                    fsub (Fin 1) (Fin (5404319552844595 / 2 ^ 54)))
                  (Base ''TitForTat''))) ()
   \<and> create_jossann example (Point (Fin 0) (Fin (1 / 2))) =
     Player (JossAnnTransformer (Fin 0, Fin (1 / 2)) (Base ''TitForTat'')) ()
   \<and> \<not> (\<exists>q. player_class (create_jossann example (Point (Fin 0) (Fin (1 / 2))))
              = DualTransformer q)"
proof -
  have a: "fge (fadd (Fin 1) (Fin 0)) (Fin 1)" by simp
  have a1: "fsub (Fin 1) (Fin 1) = Fin 0" "fsub (Fin 1) (Fin 0) = Fin 1"
    by (simp_all add: fsub_def rnd_values)
  have b: "fge (fadd (Fin (3152519739159347 / 2 ^ 52)) (Fin (5404319552844595 / 2 ^ 54))) (Fin 1)"
    by (simp only: float_sum_seven_three) simp
  have c: "\<not> fge (fadd (Fin 0) (Fin (1 / 2))) (Fin 1)" by simp
  show ?thesis
    using create_jossann_branches [of "Fin 1" "Fin 0" example] a
          create_jossann_branches [of "Fin (3152519739159347 / 2 ^ 52)"
            "Fin (5404319552844595 / 2 ^ 54)" example] b
          create_jossann_branches [of "Fin 0" "Fin (1 / 2)" example] c
    by (simp add: example_def a1)
qed

text \<open>
  Against C1 as stated: at the point \<open>(1, 0)\<close>, whose sum is 1, the probe class is the
  dual of the Joss-Ann transformed probe class, with the parameters \<open>(0, 1)\<close>. It is not
  the Joss-Ann transformer applied to the dual of the probe class.
\<close>

theorem create_jossann_order_counterexample:
  "fge (fadd (Fin 1) (Fin 0)) (Fin 1)
   \<and> create_jossann example (Point (Fin 1) (Fin 0)) =
       Player (DualTransformer (JossAnnTransformer (Fin 0, Fin 1) (Base ''TitForTat''))) ()
   \<and> create_jossann example (Point (Fin 1) (Fin 0)) \<noteq>
       Player (JossAnnTransformer (Fin 0, Fin 1) (DualTransformer (Base ''TitForTat''))) ()"
  by (simp add: create_jossann_Point fsub_def rnd_values example_def)

text \<open>
  C1, amended. For every point \<open>(a, b)\<close> whose float sum is at least 1, the Joss-Ann
  transformer with the parameters \<open>(1 - a, 1 - b)\<close> is applied to the probe class itself
  and the dual transformer is applied to the result: the dual is outermost and the
  Joss-Ann transformer innermost, and no Joss-Ann transformer wraps a dual. The class is
  instantiated with the construction parameters of the probe.
\<close>

theorem create_jossann_dual_outermost:
  assumes "fge (fadd a b) (Fin 1)"
  shows "player_class (create_jossann self (Point a b)) =
           DualTransformer
             (JossAnnTransformer (fsub (Fin 1) a, fsub (Fin 1) b) (probe_class self))
         \<and> init_kwargs (create_jossann self (Point a b)) = probe_kwargs self
         \<and> (\<forall>p c. player_class (create_jossann self (Point a b)) \<noteq>
                     JossAnnTransformer p (DualTransformer c))"
  using assms by (simp add: create_jossann_Point)

theorem create_jossann_dual_outermost_witness:
  "player_class (create_jossann example (Point (Fin 1) (Fin 0))) =
     DualTransformer (JossAnnTransformer (Fin 0, Fin 1) (Base ''TitForTat''))
   \<and> init_kwargs (create_jossann example (Point (Fin 1) (Fin 0))) = ()"
proof -
  have s: "fge (fadd (Fin 1) (Fin 0)) (Fin 1)" by simp
  have d: "fsub (Fin 1) (Fin 1) = Fin 0" "fsub (Fin 1) (Fin 0) = Fin 1"
    by (simp_all add: fsub_def rnd_values)
  show ?thesis
    using create_jossann_dual_outermost [OF s, of example] by (simp add: d example_def)
qed

subsection \<open>The grid of points\<close>















subsection \<open>The grids of the examples\<close>

lemma upt_three: "[0..<3] = [0, 1, 2]" "[0..<2] = [0, 1]"
  by (simp_all add: upt_rec)

lemma linspace_two: "linspace (Fin 0) (Fin 1) 2 = Inr [Fin 0, Fin 1]"
  by (simp add: linspace_def Let_def fsub_def of_int_d_def rnd_values upt_three)

lemma linspace_three: "linspace (Fin 0) (Fin 1) 3 = Inr [Fin 0, Fin (1 / 2), Fin 1]"
  by (simp add: linspace_def Let_def fsub_def of_int_d_def rnd_values upt_three)

lemma create_points_example: "create_points example = Inr (points example)"
  by (simp add: create_points_def py_truediv_def example_def rnd_values linspace_two)

lemma create_points_half: "create_points example_half = Inr half_points"
  by (simp add: create_points_def py_truediv_def example_half_def example_def rnd_values
      linspace_three half_points_def)


subsection \<open>The step setter\<close>

lemma create_points_step:
  fixes a :: "('c, 'k, 'i, 'v) AshlockFingerprint" and b :: "('d, 'l, 'j, 'w) AshlockFingerprint"
  shows "step a = step b \<Longrightarrow> create_points a = create_points b"
  by (simp add: create_points_def)

lemma create_probes_cong:
  fixes a :: "('c, 'k, 'i, 'v) AshlockFingerprint" and b :: "('c, 'k, 'j, 'w) AshlockFingerprint"
  shows "probe_class a = probe_class b \<Longrightarrow> probe_kwargs a = probe_kwargs b \<Longrightarrow>
         points a = points b \<Longrightarrow> create_probes a = create_probes b"
  by (simp add: create_probes_def create_jossann_def split: Point.split)

lemma step_setter_Inl:
  "create_points (self \<lparr> step := s \<rparr>) = Inl e \<Longrightarrow>
   step_setter s self = (Inl e, self \<lparr> step := s \<rparr>)"
  by (simp add: step_setter_def Let_def)

lemma step_setter_Inr:
  "create_points (self \<lparr> step := s \<rparr>) = Inr pts \<Longrightarrow>
   step_setter s self =
     (Inr (), self \<lparr> step := s, points := pts,
                     probe_list := create_probes (self \<lparr> step := s, points := pts \<rparr>) \<rparr>)"
  by (simp add: step_setter_def Let_def)

lemma init_unfold:
  fixes dflt :: "'c strategy \<Rightarrow> 'k"
  shows "(init dflt strategy probe s pb :: error + ('c, 'k, 'i, 'v) AshlockFingerprint) =
      (case create_points
              (\<lparr> player = create_player dflt strategy,
                 probe_class = fst (get_class_and_kwargs dflt probe),
                 probe_kwargs = snd (get_class_and_kwargs dflt probe),
                 step = s, progress_bar = pb, points = [], probe_list = [],
                 interactions = Map.empty, spatial_tournament = None, data = Map.empty \<rparr>
               :: ('c, 'k, 'i, 'v) AshlockFingerprint) of
         Inl e \<Rightarrow> Inl e
       | Inr pts \<Rightarrow>
           Inr \<lparr> player = create_player dflt strategy,
                 probe_class = fst (get_class_and_kwargs dflt probe),
                 probe_kwargs = snd (get_class_and_kwargs dflt probe),
                 step = s, progress_bar = pb, points = pts,
                 probe_list = create_probes
                   (\<lparr> player = create_player dflt strategy,
                      probe_class = fst (get_class_and_kwargs dflt probe),
                      probe_kwargs = snd (get_class_and_kwargs dflt probe),
                      step = s, progress_bar = pb, points = pts, probe_list = [],
                      interactions = Map.empty, spatial_tournament = None, data = Map.empty \<rparr>
                    :: ('c, 'k, 'i, 'v) AshlockFingerprint),
                 interactions = Map.empty, spatial_tournament = None, data = Map.empty \<rparr>)"
  by (simp add: init_def Let_def split: sum.split)

lemma init_cases:
  fixes dflt :: "'c strategy \<Rightarrow> 'k"
  assumes i: "(init dflt strategy probe s pb :: error + ('c, 'k, 'i, 'v) AshlockFingerprint) = Inr obj"
  shows "step obj = s \<and> create_points obj = Inr (points obj) \<and> probe_list obj = create_probes obj
     \<and> interactions obj = Map.empty \<and> spatial_tournament obj = None \<and> data obj = Map.empty
     \<and> player obj = create_player dflt strategy \<and> progress_bar obj = pb
     \<and> (probe_class obj, probe_kwargs obj) = get_class_and_kwargs dflt probe"
proof -
  define self0 :: "('c, 'k, 'i, 'v) AshlockFingerprint" where
    "self0 = \<lparr> player = create_player dflt strategy,
                probe_class = fst (get_class_and_kwargs dflt probe),
                probe_kwargs = snd (get_class_and_kwargs dflt probe),
                step = s, progress_bar = pb, points = [], probe_list = [],
                interactions = Map.empty, spatial_tournament = None, data = Map.empty \<rparr>"
  have i': "init dflt strategy probe s pb =
      (case create_points self0 of
         Inl e \<Rightarrow> Inl e
       | Inr pts \<Rightarrow> Inr (self0 \<lparr> points := pts,
                                  probe_list := create_probes (self0 \<lparr> points := pts \<rparr>) \<rparr>))"
    by (simp add: init_def self0_def Let_def split: sum.split)
  show ?thesis
  proof (cases "create_points self0")
    case (Inl e)
    then show ?thesis using i i' by simp
  next
    case (Inr pts)
    then have obj: "obj = self0 \<lparr> points := pts,
                                  probe_list := create_probes (self0 \<lparr> points := pts \<rparr>) \<rparr>"
      using i i' by simp
    have "create_points obj = create_points self0"
      by (rule create_points_step) (simp add: obj)
    then have cp: "create_points obj = Inr (points obj)" using Inr by (simp add: obj)
    have pr: "create_probes (self0 \<lparr> points := pts \<rparr>) = create_probes obj"
      by (rule create_probes_cong) (simp_all add: obj)
    have pl: "probe_list obj = create_probes obj" using pr by (simp add: obj)
    have rest: "step obj = s" "interactions obj = Map.empty" "spatial_tournament obj = None"
      "data obj = Map.empty" "player obj = create_player dflt strategy" "progress_bar obj = pb"
      "(probe_class obj, probe_kwargs obj) = get_class_and_kwargs dflt probe"
      by (simp_all add: obj self0_def)
    show ?thesis using cp pl rest by simp
  qed
qed

lemma init_error:
  fixes dflt :: "'c strategy \<Rightarrow> 'k" and self :: "('c, 'k, 'i, 'v) AshlockFingerprint"
  assumes i: "(init dflt strategy probe s pb :: error + ('c, 'k, 'i, 'v) AshlockFingerprint) = Inl e"
  shows "create_points (self \<lparr> step := s \<rparr>) = Inl e"
proof -
  define self0 :: "('c, 'k, 'i, 'v) AshlockFingerprint" where
    "self0 = \<lparr> player = create_player dflt strategy,
                probe_class = fst (get_class_and_kwargs dflt probe),
                probe_kwargs = snd (get_class_and_kwargs dflt probe),
                step = s, progress_bar = pb, points = [], probe_list = [],
                interactions = Map.empty, spatial_tournament = None, data = Map.empty \<rparr>"
  have "create_points self0 = Inl e"
    using i by (simp add: init_def self0_def Let_def split: sum.splits)
  moreover have "create_points (self \<lparr> step := s \<rparr>) = create_points self0"
    by (rule create_points_step) (simp add: self0_def)
  ultimately show ?thesis by simp
qed

text \<open>The constructor at the steps of the examples.\<close>

lemma create_jossann_cong:
  fixes a :: "('c, 'k, 'i, 'v) AshlockFingerprint" and b :: "('c, 'k, 'j, 'w) AshlockFingerprint"
  shows "probe_class a = probe_class b \<Longrightarrow> probe_kwargs a = probe_kwargs b \<Longrightarrow>
         create_jossann a = create_jossann b"
  by (rule ext) (simp add: create_jossann_def split: Point.split)

lemma init_example:
  "init (\<lambda>c. ()) (Strategy (Base ''Cooperator'')) (Strategy (Base ''TitForTat'')) (Fin 1) False
     = Inr example"
proof -
  define self0 :: "(string, unit, (double \<times> double) option, double) AshlockFingerprint" where
    "self0 = \<lparr> player = Player (Base ''Cooperator'') (), probe_class = Base ''TitForTat'',
             probe_kwargs = (), step = Fin 1, progress_bar = False, points = [], probe_list = [],
             interactions = Map.empty, spatial_tournament = None, data = Map.empty \<rparr>"
  have "create_points self0 = create_points example"
    by (rule create_points_step) (simp add: example_def self0_def)
  then have cp: "create_points self0 =
      Inr [Point (Fin 0) (Fin 0), Point (Fin 0) (Fin 1), Point (Fin 1) (Fin 0), Point (Fin 1) (Fin 1)]"
    by (simp add: create_points_example) (simp add: example_def)
  show ?thesis
    by (simp add: init_unfold get_class_and_kwargs_def cp [unfolded self0_def] create_probes_def
        create_jossann_Point fsub_def rnd_values example_def example_probes_def)
qed

lemma init_half:
  "init (\<lambda>c. ()) (Strategy (Base ''Cooperator'')) (Strategy (Base ''TitForTat'')) (Fin (1 / 2))
     False
   = Inr (example \<lparr> step := Fin (1 / 2), points := half_points,
                     probe_list := map (create_jossann example) half_points \<rparr>)"
proof -
  define self0 :: "(string, unit, (double \<times> double) option, double) AshlockFingerprint" where
    "self0 = \<lparr> player = Player (Base ''Cooperator'') (), probe_class = Base ''TitForTat'',
             probe_kwargs = (), step = Fin (1 / 2), progress_bar = False, points = [],
             probe_list = [],
             interactions = Map.empty, spatial_tournament = None, data = Map.empty \<rparr>"
  have "create_points self0 = create_points example_half"
    by (rule create_points_step) (simp add: example_half_def self0_def)
  then have cp: "create_points self0 = Inr half_points"
    by (simp add: create_points_half)
  have cj: "create_jossann (self0 \<lparr> points := half_points \<rparr>) = create_jossann example"
    by (rule create_jossann_cong) (simp_all add: self0_def example_def)
  have "init (\<lambda>c. ()) (Strategy (Base ''Cooperator'')) (Strategy (Base ''TitForTat''))
          (Fin (1 / 2)) False
        = Inr (self0 \<lparr> points := half_points,
                        probe_list := map (create_jossann (self0 \<lparr> points := half_points \<rparr>))
                                        half_points \<rparr>)"
    using cp by (simp add: init_def Let_def get_class_and_kwargs_def create_probes_def self0_def)
  also have "\<dots> = Inr (example \<lparr> step := Fin (1 / 2), points := half_points,
                     probe_list := map (create_jossann example) half_points \<rparr>)"
    unfolding cj by (simp add: self0_def example_def)
  finally show ?thesis .
qed

lemma init_zero:
  "(init (\<lambda>c. ()) (Strategy (Base ''Cooperator'')) (Strategy (Base ''TitForTat'')) (Fin 0) False
     :: error + (string, unit, (double \<times> double) option, double) AshlockFingerprint)
   = Inl ZeroDivisionError"
  by (simp add: init_unfold create_points_def py_truediv_def)

text \<open>
  C9. Setting \<open>step\<close> leaves the interactions, the data and the tournament as they
  were, and likewise the player, the probe class with its arguments and the progress
  flag; the stored step becomes the new one. When a fingerprint constructed with the new
  step and the same probe exists, the setter raises nothing and the points and the probe
  list become those of that fingerprint. When the construction with the new step raises,
  the setter raises the same error and the points and the probe list stay as they were.
\<close>

theorem step_setter_frame:
  fixes self :: "('c, 'k, 'i, 'v) AshlockFingerprint" and dflt :: "'c strategy \<Rightarrow> 'k"
  shows
  "interactions (snd (step_setter s self)) = interactions self
   \<and> data (snd (step_setter s self)) = data self
   \<and> spatial_tournament (snd (step_setter s self)) = spatial_tournament self
   \<and> player (snd (step_setter s self)) = player self
   \<and> probe_class (snd (step_setter s self)) = probe_class self
   \<and> probe_kwargs (snd (step_setter s self)) = probe_kwargs self
   \<and> progress_bar (snd (step_setter s self)) = progress_bar self
   \<and> step (snd (step_setter s self)) = s
   \<and> (\<forall>obj :: ('c, 'k, 'i, 'v) AshlockFingerprint.
         init dflt strategy probe s pb = Inr obj
         \<and> probe_class obj = probe_class self \<and> probe_kwargs obj = probe_kwargs self
         \<longrightarrow> fst (step_setter s self) = Inr ()
             \<and> points (snd (step_setter s self)) = points obj
             \<and> probe_list (snd (step_setter s self)) = probe_list obj)
   \<and> (\<forall>e. (init dflt strategy probe s pb :: error + ('c, 'k, 'i, 'v) AshlockFingerprint) = Inl e
         \<longrightarrow> fst (step_setter s self) = Inl e
             \<and> points (snd (step_setter s self)) = points self
             \<and> probe_list (snd (step_setter s self)) = probe_list self)"
proof -
  define self1 where "self1 = self \<lparr> step := s \<rparr>"
  have frame: "interactions (snd (step_setter s self)) = interactions self
     \<and> data (snd (step_setter s self)) = data self
     \<and> spatial_tournament (snd (step_setter s self)) = spatial_tournament self
     \<and> player (snd (step_setter s self)) = player self
     \<and> probe_class (snd (step_setter s self)) = probe_class self
     \<and> probe_kwargs (snd (step_setter s self)) = probe_kwargs self
     \<and> progress_bar (snd (step_setter s self)) = progress_bar self
     \<and> step (snd (step_setter s self)) = s"
  proof (cases "create_points (self \<lparr> step := s \<rparr>)")
    case (Inl e)
    show ?thesis by (simp add: step_setter_Inl [OF Inl])
  next
    case (Inr pts)
    show ?thesis by (simp add: step_setter_Inr [OF Inr])
  qed
  have ok: "fst (step_setter s self) = Inr ()
             \<and> points (snd (step_setter s self)) = points obj
             \<and> probe_list (snd (step_setter s self)) = probe_list obj"
    if i: "init dflt strategy probe s pb = Inr obj"
      and c: "probe_class obj = probe_class self" "probe_kwargs obj = probe_kwargs self"
    for obj :: "('c, 'k, 'i, 'v) AshlockFingerprint"
  proof -
    note o = init_cases [OF i]
    have "create_points self1 = create_points obj"
      by (rule create_points_step) (simp add: self1_def o)
    then have cp: "create_points self1 = Inr (points obj)" using o by simp
    have "create_probes (self \<lparr> step := s, points := points obj \<rparr>) = create_probes obj"
      by (rule create_probes_cong) (simp_all add: c)
    then show ?thesis
      using o by (simp add: step_setter_Inr [OF cp [unfolded self1_def]])
  qed
  have bad: "fst (step_setter s self) = Inl e
             \<and> points (snd (step_setter s self)) = points self
             \<and> probe_list (snd (step_setter s self)) = probe_list self"
    if i: "(init dflt strategy probe s pb :: error + ('c, 'k, 'i, 'v) AshlockFingerprint) = Inl e"
    for e
  proof -
    have "create_points self1 = Inl e"
      unfolding self1_def using i by (rule init_error)
    then show ?thesis
      by (simp add: step_setter_Inl self1_def)
  qed
  have okall: "\<forall>obj :: ('c, 'k, 'i, 'v) AshlockFingerprint.
         init dflt strategy probe s pb = Inr obj
         \<and> probe_class obj = probe_class self \<and> probe_kwargs obj = probe_kwargs self
         \<longrightarrow> fst (step_setter s self) = Inr ()
             \<and> points (snd (step_setter s self)) = points obj
             \<and> probe_list (snd (step_setter s self)) = probe_list obj"
    using ok by blast
  have badall: "\<forall>e. (init dflt strategy probe s pb :: error + ('c, 'k, 'i, 'v) AshlockFingerprint) = Inl e
         \<longrightarrow> fst (step_setter s self) = Inl e
             \<and> points (snd (step_setter s self)) = points self
             \<and> probe_list (snd (step_setter s self)) = probe_list self"
    using bad by blast
  from frame okall badall show ?thesis by (elim conjE, intro conjI) assumption+
qed

theorem step_setter_frame_witness:
  "fst (step_setter (Fin (1 / 2)) example_played) = Inr ()
   \<and> step (snd (step_setter (Fin (1 / 2)) example_played)) = Fin (1 / 2)
   \<and> points (snd (step_setter (Fin (1 / 2)) example_played)) = half_points
   \<and> probe_list (snd (step_setter (Fin (1 / 2)) example_played)) =
       map (create_jossann example) half_points
   \<and> interactions (snd (step_setter (Fin (1 / 2)) example_played)) = example_interactions
   \<and> spatial_tournament (snd (step_setter (Fin (1 / 2)) example_played)) =
       Some example_tournament
   \<and> fst (step_setter (Fin 0) example_played) = Inl ZeroDivisionError
   \<and> step (snd (step_setter (Fin 0) example_played)) = Fin 0
   \<and> points (snd (step_setter (Fin 0) example_played)) =
       [Point (Fin 0) (Fin 0), Point (Fin 0) (Fin 1), Point (Fin 1) (Fin 0), Point (Fin 1) (Fin 1)]
   \<and> interactions (snd (step_setter (Fin 0) example_played)) = example_interactions"
proof -
  define obj :: "(string, unit, (double \<times> double) option, double) AshlockFingerprint" where
    "obj = example \<lparr> step := Fin (1 / 2), points := half_points,
                      probe_list := map (create_jossann example) half_points \<rparr>"
  have i: "init (\<lambda>c. ()) (Strategy (Base ''Cooperator'')) (Strategy (Base ''TitForTat''))
             (Fin (1 / 2)) False = Inr obj"
    unfolding obj_def by (rule init_half)
  have c: "probe_class obj = probe_class example_played"
    "probe_kwargs obj = probe_kwargs example_played"
    by (simp_all add: obj_def example_played_def)
  note z = init_zero
  have o: "points obj = half_points" "probe_list obj = map (create_jossann example) half_points"
    by (simp_all add: obj_def)
  have e: "interactions example_played = example_interactions"
    "spatial_tournament example_played = Some example_tournament"
    "points example_played =
       [Point (Fin 0) (Fin 0), Point (Fin 0) (Fin 1), Point (Fin 1) (Fin 0), Point (Fin 1) (Fin 1)]"
    by (simp_all add: example_played_def example_def)
  show ?thesis
    using step_setter_frame [of "Fin (1 / 2)" example_played "\<lambda>c. ()"
            "Strategy (Base ''Cooperator'')" "Strategy (Base ''TitForTat'')" False] i c
          step_setter_frame [of "Fin 0" example_played "\<lambda>c. ()" "Strategy (Base ''Cooperator'')"
            "Strategy (Base ''TitForTat'')" False] z
    by (simp add: o e)
qed

end
